theory Spec2Isabelle
  imports Main
begin

section \<open>Namespace tree node: aggregate readiness label (namespaceNode.ts)\<close>

text \<open>
  The icons \<open>updateLabel\<close> chooses between (members of the \<open>TreeNodeIcon\<close> enum of
  \<open>treeNode.ts\<close> that \<open>namespaceNode.ts\<close> names), and the collapsible state of a
  tree item (\<open>TreeItemCollapsibleState\<close> of the editor API: None, Collapsed, Expanded).
\<close>

datatype TreeNodeIcon = Success | Progressing | Warning

datatype TreeItemCollapsibleState = NotCollapsible | Collapsed | Expanded

text \<open>
  A child of a namespace node. \<open>updateLabel\<close> asks only whether the child is an instance
  of \<open>SourceNode\<close> or \<open>WorkloadNode\<close> and, if so, reads its two boolean getters
  \<open>resourceIsReady\<close> and \<open>resourceIsProgressing\<close>. Every other node class carries no
  readiness and is \<open>OtherNode\<close>.
\<close>

datatype ChildNode =
    SourceNode bool bool
  | WorkloadNode bool bool
  | OtherNode

fun tracked :: "ChildNode \<Rightarrow> bool" where
  "tracked (SourceNode r p) = True"
| "tracked (WorkloadNode r p) = True"
| "tracked OtherNode = False"

fun resourceIsReady :: "ChildNode \<Rightarrow> bool" where
  "resourceIsReady (SourceNode r p) = r"
| "resourceIsReady (WorkloadNode r p) = r"
| "resourceIsReady OtherNode = False"

fun resourceIsProgressing :: "ChildNode \<Rightarrow> bool" where
  "resourceIsProgressing (SourceNode r p) = p"
| "resourceIsProgressing (WorkloadNode r p) = p"
| "resourceIsProgressing OtherNode = False"

text \<open>
  The node itself: \<open>resourceName\<close> is \<open>this.resource.metadata?.name\<close> (absent when the
  metadata carries no name), the other fields are those of \<open>TreeNode\<close> that
  \<open>updateLabel\<close> reads or writes. \<open>setIcon(undefined)\<close> leaves \<open>icon = None\<close>.
\<close>

record NamespaceNode =
  resourceName :: "string option"
  children :: "ChildNode list"
  collapsibleState :: TreeItemCollapsibleState
  icon :: "TreeNodeIcon option"
  label :: string

text \<open>
  The body of the \<open>for\<close> loop of \<open>updateLabel\<close>, on the pair
  \<open>(readyLength, loadingLength)\<close>: a readiness-tracked child counts as ready when
  ready, otherwise as loading when progressing, otherwise not at all; any other child
  counts as ready.
\<close>

fun countChild :: "ChildNode \<Rightarrow> nat \<times> nat \<Rightarrow> nat \<times> nat" where
  "countChild child (readyLength, loadingLength) =
     (if tracked child then
        (if resourceIsReady child then (readyLength + 1, loadingLength)
         else if resourceIsProgressing child then (readyLength, loadingLength + 1)
         else (readyLength, loadingLength))
      else (readyLength + 1, loadingLength))"

fun countChildren :: "ChildNode list \<Rightarrow> nat \<times> nat \<Rightarrow> nat \<times> nat" where
  "countChildren [] acc = acc"
| "countChildren (child # rest) acc = countChildren rest (countChild child acc)"

definition readyLength :: "ChildNode list \<Rightarrow> nat" where
  "readyLength cs = fst (countChildren cs (0, 0))"

definition loadingLength :: "ChildNode list \<Rightarrow> nat" where
  "loadingLength cs = snd (countChildren cs (0, 0))"

definition totalLength :: "ChildNode list \<Rightarrow> nat" where
  "totalLength cs = length cs"

definition validLength :: "ChildNode list \<Rightarrow> nat" where
  "validLength cs = readyLength cs + loadingLength cs"

text \<open>Template-literal rendering: a number in decimal, a missing name as \<open>undefined\<close>.\<close>

fun showNat :: "nat \<Rightarrow> string" where
  "showNat n =
     (if n < 10 then [''0123456789'' ! n]
      else showNat (n div 10) @ [''0123456789'' ! (n mod 10)])"

declare showNat.simps [simp del]

definition showName :: "string option \<Rightarrow> string" where
  "showName n = (case n of None \<Rightarrow> ''undefined'' | Some s \<Rightarrow> s)"

definition chooseIcon :: "ChildNode list \<Rightarrow> TreeNodeIcon" where
  "chooseIcon cs =
     (if readyLength cs = totalLength cs then Success
      else if validLength cs = totalLength cs then Progressing
      else Warning)"

definition lengthLabel :: "ChildNode list \<Rightarrow> string" where
  "lengthLabel cs =
     (if totalLength cs = validLength cs then showNat (totalLength cs)
      else showNat (validLength cs) @ ''/'' @ showNat (totalLength cs))"

definition updateLabel :: "bool \<Rightarrow> NamespaceNode \<Rightarrow> NamespaceNode" where
  "updateLabel withIcons node =
     (let cs = children node;
          node1 = node\<lparr>icon := (if withIcons then Some (chooseIcon cs) else None)\<rparr>
      in if collapsibleState node1 = Collapsed
         then node1\<lparr>label := showName (resourceName node) @ '' ('' @ lengthLabel cs @ '')''\<rparr>
         else node1\<lparr>label := showName (resourceName node)\<rparr>)"

section \<open>Resource type registry (makeTreeNode)\<close>

text \<open>
  The classes held by the \<open>nodeConstructors\<close> table. The classes themselves live in
  other modules; a node built by one of them is recorded as the class together with the
  object it was built from.
\<close>

datatype NodeClass =
    BucketNode
  | GitRepositoryNode
  | OCIRepositoryNode
  | HelmRepositoryNode
  | HelmReleaseNode
  | KustomizationNode
  | GitOpsTemplateNode
  | NamespaceNodeClass
  | AnyResourceNode

text \<open>The part of a Kubernetes object that \<open>makeTreeNode\<close> looks at.\<close>

record KubernetesObject =
  kind :: "string option"
  metadataName :: "string option"

text \<open>
  \<open>nodeConstructors\<close> is an object literal, so \<open>nodeConstructors[key]\<close> is an ordinary
  JavaScript property read: the literal's own properties first, then the properties every
  object literal inherits from \<open>Object.prototype\<close>. A property read yields one of:
  a node class of the table, the \<open>Object\<close> function (the inherited \<open>constructor\<close>),
  an inherited built-in method (a function that cannot be used with \<open>new\<close>), or the
  prototype object itself (the inherited \<open>__proto__\<close> accessor).
\<close>

datatype JsProperty =
    NodeConstructor NodeClass
  | ObjectFunction
  | BuiltinMethod
  | PrototypeObject

definition nodeConstructors :: "(string \<times> NodeClass) list" where
  "nodeConstructors =
     [(''Bucket'', BucketNode),
      (''GitRepository'', GitRepositoryNode),
      (''OCIRepository'', OCIRepositoryNode),
      (''HelmRepository'', HelmRepositoryNode),
      (''HelmRelease'', HelmReleaseNode),
      (''Kustomization'', KustomizationNode),
      (''GitOpsTemplate'', GitOpsTemplateNode),
      (''Namespace'', NamespaceNodeClass),
      (''Deployment'', AnyResourceNode),
      (''Node'', AnyResourceNode),
      (''Pod'', AnyResourceNode),
      (''ConfigMap'', AnyResourceNode)]"

definition objectPrototype :: "(string \<times> JsProperty) list" where
  "objectPrototype =
     [(''constructor'', ObjectFunction),
      (''__proto__'', PrototypeObject),
      (''hasOwnProperty'', BuiltinMethod),
      (''isPrototypeOf'', BuiltinMethod),
      (''propertyIsEnumerable'', BuiltinMethod),
      (''toLocaleString'', BuiltinMethod),
      (''toString'', BuiltinMethod),
      (''valueOf'', BuiltinMethod),
      (''__defineGetter__'', BuiltinMethod),
      (''__defineSetter__'', BuiltinMethod),
      (''__lookupGetter__'', BuiltinMethod),
      (''__lookupSetter__'', BuiltinMethod)]"

definition getProperty :: "string \<Rightarrow> JsProperty option" where
  "getProperty key =
     (case map_of nodeConstructors key of
        Some c \<Rightarrow> Some (NodeConstructor c)
      | None \<Rightarrow> map_of objectPrototype key)"

datatype JsError = TypeError

text \<open>
  What \<open>makeTreeNode\<close> hands back when it returns a value: a tree node of some class, or
  (through \<open>new Object(object)\<close>) the very object it was given.
\<close>

datatype Made =
    TreeNode NodeClass KubernetesObject
  | SameObject KubernetesObject

text \<open>
  \<open>new constructor(object)\<close>: a class of the table builds its node; \<open>new Object(o)\<close> on
  an object returns that object; \<open>new\<close> on anything that is not a constructor raises a
  \<open>TypeError\<close>.
\<close>

fun construct :: "JsProperty \<Rightarrow> KubernetesObject \<Rightarrow> JsError + Made" where
  "construct (NodeConstructor c) object = Inr (TreeNode c object)"
| "construct ObjectFunction object = Inr (SameObject object)"
| "construct BuiltinMethod object = Inl TypeError"
| "construct PrototypeObject object = Inl TypeError"

text \<open>
  \<open>makeTreeNode\<close>: \<open>Inr None\<close> is the return of \<open>undefined\<close>, \<open>Inl\<close> a raised error.
  \<open>!object.kind\<close> holds for a missing kind and for the empty string; every property
  value of the lookup is an object or a function, hence truthy.
\<close>

definition makeTreeNode :: "KubernetesObject \<Rightarrow> JsError + Made option" where
  "makeTreeNode object =
     (case kind object of
        None \<Rightarrow> Inr None
      | Some k \<Rightarrow>
          if k = [] then Inr None
          else (case getProperty k of
                  None \<Rightarrow> Inr None
                | Some constructor \<Rightarrow>
                    (case construct constructor object of
                       Inl e \<Rightarrow> Inl e
                     | Inr node \<Rightarrow> Inr (Some node))))"

section \<open>Kubeconfig synchronisation (kubernetesConfig.ts)\<close>

datatype KubeConfigState = Loading | Loaded | Failed | NoContextSelected

text \<open>
  A context entry and a kubeconfig as the client library's \<open>KubeConfig\<close> object exposes
  them to this module: \<open>getContexts()\<close> and \<open>currentContext\<close> / \<open>getCurrentContext()\<close>.
\<close>

record Context =
  name :: string
  cluster :: string
  user :: "string option"

record KubeConfig =
  contexts :: "Context list"
  currentContext :: string

datatype ActionOnInvalid = THROW | FILTER

text \<open>
  The result of a shell command. The text on standard output is left as a type
  parameter: the module never inspects it, it only hands it to the loader.
\<close>

record 't ShellResult =
  code :: int
  stdout :: 't
  stderr :: string

datatype ContextId = CurrentClusterGitOpsNotEnabled | ClusterUnreachable

datatype TelemetryError =
    FAILED_TO_GET_KUBECTL_CONFIG
  | FAILED_TO_SET_CURRENT_KUBERNETES_CONTEXT

text \<open>
  Everything the module does that is visible from outside, in program order: each
  assignment to \<open>kubeConfigState\<close> and each call of a collaborator.
\<close>

datatype Event =
    SetState KubeConfigState
  | InvokeKubectl string
  | SendError TelemetryError
  | ShowErrorMessage string
  | SetVSCodeContext ContextId bool
  | ReloadClustersTreeView
  | LoadApiResources

text \<open>
  The module state: the two module-level variables, the editor's context keys written
  through \<open>setVSCodeContext\<close>, and the trace of events so far.
\<close>

record World =
  kubeConfigState :: KubeConfigState
  kubeConfig :: KubeConfig
  vscodeContext :: "ContextId \<Rightarrow> bool option"
  trace :: "Event list"

text \<open>
  The collaborators defined outside this module, taken as parameters: the kubectl
  wrapper (\<open>None\<close> is its \<open>undefined\<close> result), the kubeconfig path, the error
  formatter, the client library's loader (\<open>None\<close> when it raises) and exporter, the three
  comparisons of \<open>utils/kubeConfigCompare\<close>, and the shell escaping of \<open>safesh\<close>.
\<close>

record 't Env =
  invokeKubectlCommand :: "string \<Rightarrow> 't ShellResult option"
  loadKubeConfigPath :: string
  shellCodeError :: "'t ShellResult option \<Rightarrow> string"
  loadFromString :: "'t \<Rightarrow> ActionOnInvalid \<Rightarrow> KubeConfig option"
  exportConfig :: "KubeConfig \<Rightarrow> 't"
  kcTextChanged :: "KubeConfig \<Rightarrow> KubeConfig \<Rightarrow> bool"
  kcContextsListChanged :: "KubeConfig \<Rightarrow> KubeConfig \<Rightarrow> bool"
  kcCurrentContextChanged :: "KubeConfig \<Rightarrow> KubeConfig \<Rightarrow> bool"
  safesh :: "string \<Rightarrow> string"

text \<open>How a call ends: it returns a value, or an exception escapes it.\<close>

datatype 'a Completion = Returned 'a | Raised

definition emit :: "Event \<Rightarrow> World \<Rightarrow> World" where
  "emit e w = w\<lparr>trace := trace w @ [e]\<rparr>"

definition setState :: "KubeConfigState \<Rightarrow> World \<Rightarrow> World" where
  "setState s w = emit (SetState s) (w\<lparr>kubeConfigState := s\<rparr>)"

definition setVSCodeContext :: "ContextId \<Rightarrow> bool \<Rightarrow> World \<Rightarrow> World" where
  "setVSCodeContext k v w =
     emit (SetVSCodeContext k v) (w\<lparr>vscodeContext := (vscodeContext w)(k \<mapsto> v)\<rparr>)"

definition reloadClustersTreeView :: "World \<Rightarrow> World" where
  "reloadClustersTreeView w = emit ReloadClustersTreeView w"

definition loadApiResources :: "World \<Rightarrow> World" where
  "loadApiResources w = emit LoadApiResources w"

definition currentContextExists :: "KubeConfig \<Rightarrow> bool" where
  "currentContextExists kc =
     (find (\<lambda>context. name context = currentContext kc) (contexts kc) \<noteq> None)"

definition kubeconfigChanged ::
  "'t Env \<Rightarrow> KubeConfig \<Rightarrow> bool \<Rightarrow> World \<Rightarrow> unit Completion \<times> World" where
  "kubeconfigChanged env newKubeConfig forceReloadResourceKinds w =
     (let contextsListChanged = kcContextsListChanged env (kubeConfig w) newKubeConfig;
          contextChanged = kcCurrentContextChanged env (kubeConfig w) newKubeConfig
      in case loadFromString env (exportConfig env newKubeConfig) FILTER of
           None \<Rightarrow> (Raised, w)
         | Some loaded \<Rightarrow>
             (let w1 = w\<lparr>kubeConfig := loaded\<rparr>;
                  w2 = (if \<not> currentContextExists (kubeConfig w1)
                        then setState NoContextSelected w1 else w1);
                  w3 = (if contextChanged
                        then setVSCodeContext ClusterUnreachable False
                               (setVSCodeContext CurrentClusterGitOpsNotEnabled False w2)
                        else w2);
                  w4 = (if contextChanged \<or> forceReloadResourceKinds
                        then loadApiResources (reloadClustersTreeView w3)
                        else if contextsListChanged then reloadClustersTreeView w3
                        else w3)
              in (Returned (), w4)))"

definition failedToLoadMessage :: "'t Env \<Rightarrow> 't ShellResult option \<Rightarrow> string" where
  "failedToLoadMessage env r =
     ''Failed to load kubeconfig: '' @ loadKubeConfigPath env @ '' '' @ shellCodeError env r"

text \<open>
  The branch of \<open>syncKubeConfig\<close> taken on \<open>configShellResult?.code !== 0\<close>: telemetry,
  the error message with the kubeconfig path, the state Failed, and return.
\<close>

definition syncFailed :: "'t Env \<Rightarrow> 't ShellResult option \<Rightarrow> World \<Rightarrow> unit Completion \<times> World" where
  "syncFailed env configShellResult w =
     (Returned (),
      setState Failed
        (emit (ShowErrorMessage (failedToLoadMessage env configShellResult))
           (emit (SendError FAILED_TO_GET_KUBECTL_CONFIG) w)))"

definition syncKubeConfig :: "'t Env \<Rightarrow> bool \<Rightarrow> World \<Rightarrow> unit Completion \<times> World" where
  "syncKubeConfig env forceReloadResourceKinds w =
     (let w1 = setState Loading w;
          configShellResult = invokeKubectlCommand env ''config view'';
          w2 = emit (InvokeKubectl ''config view'') w1
      in case configShellResult of
           None \<Rightarrow> syncFailed env configShellResult w2
         | Some r \<Rightarrow>
             if code r \<noteq> 0 then syncFailed env configShellResult w2
             else
               (case loadFromString env (stdout r) FILTER of
                  None \<Rightarrow> (Raised, w2)
                | Some newKubeConfig \<Rightarrow>
                    (let w3 = setState Loaded w2
                     in if kcTextChanged env (kubeConfig w3) newKubeConfig
                        then kubeconfigChanged env newKubeConfig forceReloadResourceKinds w3
                        else if forceReloadResourceKinds
                        then (Returned (), loadApiResources w3)
                        else (Returned (), w3))))"

record SetContextResult =
  isChanged :: bool

definition failedToSetMessage :: "string \<Rightarrow> string \<Rightarrow> string" where
  "failedToSetMessage contextName err =
     ''Failed to set kubectl context to '' @ contextName @ '': '' @ err"

text \<open>
  \<open>setCurrentContext\<close>: the result \<open>None\<close> is the \<open>undefined\<close> of the error path.
  \<open>setContextShellResult?.stderr\<close> is truthy exactly for a result with non-empty
  standard error.
\<close>

definition setCurrentContext ::
  "'t Env \<Rightarrow> string \<Rightarrow> World \<Rightarrow> SetContextResult option \<times> World" where
  "setCurrentContext env contextName w =
     (if currentContext (kubeConfig w) = contextName
      then (Some \<lparr>isChanged = False\<rparr>, w)
      else
        (let command = ''config use-context '' @ safesh env contextName;
             setContextShellResult = invokeKubectlCommand env command;
             w1 = emit (InvokeKubectl command) w
         in case setContextShellResult of
              None \<Rightarrow> (Some \<lparr>isChanged = True\<rparr>, w1)
            | Some r \<Rightarrow>
                if stderr r \<noteq> []
                then (None,
                      emit (ShowErrorMessage (failedToSetMessage contextName (stderr r)))
                        (emit (SendError FAILED_TO_SET_CURRENT_KUBERNETES_CONTEXT) w1))
                else (Some \<lparr>isChanged = True\<rparr>, w1)))"

text \<open>The events a call added to the trace.\<close>

definition eventsSince :: "World \<Rightarrow> World \<Rightarrow> Event list" where
  "eventsSince w w' = drop (length (trace w)) (trace w')"

definition isReload :: "Event \<Rightarrow> bool" where
  "isReload e = (e = ReloadClustersTreeView \<or> e = LoadApiResources)"

definition reloads :: "Event list \<Rightarrow> Event list" where
  "reloads es = filter isReload es"

text \<open>A successful result of the kubectl wrapper: present, with exit code 0.\<close>

definition succeeded :: "'t ShellResult option \<Rightarrow> bool" where
  "succeeded r = (case r of None \<Rightarrow> False | Some s \<Rightarrow> code s = 0)"

section \<open>The specification's counting rule, in its own words\<close>

text \<open>
  The status aggregator as the specification writes it (section 4.4): ready counts the
  children that are ready and the children of an untracked kind, progressing counts the
  children that are progressing. These are compared with the counts of \<open>updateLabel\<close>.
\<close>

definition specReady :: "ChildNode list \<Rightarrow> nat" where
  "specReady cs =
     length (filter (\<lambda>c. tracked c \<and> resourceIsReady c) cs) +
     length (filter (\<lambda>c. \<not> tracked c) cs)"

definition specProgressing :: "ChildNode list \<Rightarrow> nat" where
  "specProgressing cs = length (filter (\<lambda>c. tracked c \<and> resourceIsProgressing c) cs)"

definition specIcon :: "ChildNode list \<Rightarrow> TreeNodeIcon" where
  "specIcon cs =
     (if specReady cs = length cs then Success
      else if specReady cs + specProgressing cs = length cs then Progressing
      else Warning)"

text \<open>The readiness invariant of the specification's data model: never both flags.\<close>

definition exclusiveFlags :: "ChildNode \<Rightarrow> bool" where
  "exclusiveFlags c = (\<not> (resourceIsReady c \<and> resourceIsProgressing c))"

section \<open>Collaborators modelled from the specification\<close>

text \<open>
  Modelled from the spec: the decoded kubeconfig text handed to the client library's
  loader, which is not part of the sources. The specification (section 4.2, step 3, and
  testable property 3) speaks of context entries that are structurally valid or
  structurally invalid; a raw configuration is the ordered list of such entries and the
  name of the current context.
\<close>

datatype RawEntry = ValidEntry Context | InvalidEntry

record RawConfig =
  rawContexts :: "RawEntry list"
  rawCurrentContext :: string

fun keepValid :: "RawEntry list \<Rightarrow> Context list" where
  "keepValid [] = []"
| "keepValid (ValidEntry c # es) = c # keepValid es"
| "keepValid (InvalidEntry # es) = keepValid es"

text \<open>
  Modelled from the spec: the client library's \<open>loadFromString\<close>, which is not part of
  the sources. With \<open>FILTER\<close> it filters out the structurally invalid entries rather than
  failing the whole parse; with \<open>THROW\<close> an invalid entry fails the whole parse.
\<close>

definition specLoadFromString :: "RawConfig \<Rightarrow> ActionOnInvalid \<Rightarrow> KubeConfig option" where
  "specLoadFromString raw onInvalidEntry =
     (case onInvalidEntry of
        FILTER \<Rightarrow>
          Some \<lparr>contexts = keepValid (rawContexts raw),
                currentContext = rawCurrentContext raw\<rparr>
      | THROW \<Rightarrow>
          if list_ex (\<lambda>e. e = InvalidEntry) (rawContexts raw) then None
          else Some \<lparr>contexts = keepValid (rawContexts raw),
                     currentContext = rawCurrentContext raw\<rparr>)"

text \<open>
  Modelled from the spec: the client library's \<open>exportConfig\<close>, which is not part of the
  sources: the raw text of a snapshot, holding its contexts in order and its current
  context.
\<close>

definition specExportConfig :: "KubeConfig \<Rightarrow> RawConfig" where
  "specExportConfig kc =
     \<lparr>rawContexts = map ValidEntry (contexts kc), rawCurrentContext = currentContext kc\<rparr>"

text \<open>
  Modelled from the spec: the three comparisons of \<open>utils/kubeConfigCompare\<close>, which is
  not part of the sources (section 4.1). The text changed iff the raw texts differ; the
  contexts list changed iff the sets of context names differ or a context has another
  cluster or user under the same name; the current context changed iff the selected
  context names differ. Section 8.6 expects a change as well when the context that was
  current is deleted and its name stays selected; the definition keeps to the wording of
  section 4.1. The results about \<open>syncKubeConfig\<close> and \<open>kubeconfigChanged\<close> hold for
  every comparison.
\<close>

definition specTextChanged :: "KubeConfig \<Rightarrow> KubeConfig \<Rightarrow> bool" where
  "specTextChanged old new = (specExportConfig old \<noteq> specExportConfig new)"

definition specContextsListChanged :: "KubeConfig \<Rightarrow> KubeConfig \<Rightarrow> bool" where
  "specContextsListChanged old new =
     (set (map name (contexts old)) \<noteq> set (map name (contexts new)) \<or>
      list_ex (\<lambda>c1. list_ex (\<lambda>c2. name c1 = name c2 \<and>
                 (cluster c1 \<noteq> cluster c2 \<or> user c1 \<noteq> user c2)) (contexts new))
        (contexts old))"

definition specCurrentContextChanged :: "KubeConfig \<Rightarrow> KubeConfig \<Rightarrow> bool" where
  "specCurrentContextChanged old new = (currentContext old \<noteq> currentContext new)"

text \<open>
  An environment built from these models around a given kubectl wrapper. The path, the
  error formatter and the shell escaping are fixed to simple stand-ins; the general
  theorems below hold for every choice of them.
\<close>

definition specEnv :: "(string \<Rightarrow> RawConfig ShellResult option) \<Rightarrow> RawConfig Env" where
  "specEnv kubectl =
     \<lparr>invokeKubectlCommand = kubectl,
      loadKubeConfigPath = ''~/.kube/config'',
      shellCodeError = (\<lambda>r. case r of None \<Rightarrow> [] | Some s \<Rightarrow> stderr s),
      loadFromString = specLoadFromString,
      exportConfig = specExportConfig,
      kcTextChanged = specTextChanged,
      kcContextsListChanged = specContextsListChanged,
      kcCurrentContextChanged = specCurrentContextChanged,
      safesh = (\<lambda>s. s)\<rparr>"

section \<open>Example data\<close>

definition ctxA :: Context where
  "ctxA = \<lparr>name = ''a'', cluster = ''cluster-a'', user = Some ''alice''\<rparr>"

definition ctxB :: Context where
  "ctxB = \<lparr>name = ''b'', cluster = ''cluster-b'', user = Some ''bob''\<rparr>"

text \<open>A kubectl wrapper whose \<open>config view\<close> succeeds with the given raw configuration.\<close>

definition kubectlViews :: "RawConfig \<Rightarrow> string \<Rightarrow> RawConfig ShellResult option" where
  "kubectlViews raw command =
     (if command = ''config view'' then Some \<lparr>code = 0, stdout = raw, stderr = []\<rparr>
      else None)"

text \<open>A kubectl wrapper whose every command fails with exit code 1.\<close>

definition kubectlFails :: "string \<Rightarrow> RawConfig ShellResult option" where
  "kubectlFails command =
     Some \<lparr>code = 1, stdout = \<lparr>rawContexts = [], rawCurrentContext = []\<rparr>,
           stderr = ''connection refused''\<rparr>"

text \<open>
  A committed state with contexts \<open>a\<close> and \<open>b\<close>, current context \<open>a\<close>, both editor
  flags raised.
\<close>

definition worldAB :: World where
  "worldAB =
     \<lparr>kubeConfigState = Loaded,
      kubeConfig = \<lparr>contexts = [ctxA, ctxB], currentContext = ''a''\<rparr>,
      vscodeContext = [CurrentClusterGitOpsNotEnabled \<mapsto> True, ClusterUnreachable \<mapsto> True],
      trace = []\<rparr>"

text \<open>
  A state whose committed kubeconfig holds no context and names the empty string as its
  current context, with no flag set. (\<open>currentContext\<close> is declared a string; the
  undefined value it has before the first load is not a value of this model.)
\<close>

definition worldInitial :: World where
  "worldInitial =
     \<lparr>kubeConfigState = Loading,
      kubeConfig = \<lparr>contexts = [], currentContext = []\<rparr>,
      vscodeContext = Map.empty,
      trace = []\<rparr>"

text \<open>
  The committed state left by a cycle in which context \<open>a\<close> was deleted while
  selected: only \<open>b\<close> is in the list, \<open>a\<close> is still named as current, the state is
  NoContextSelected and both flags are cleared.
\<close>

definition worldDangling :: World where
  "worldDangling =
     \<lparr>kubeConfigState = NoContextSelected,
      kubeConfig = \<lparr>contexts = [ctxB], currentContext = ''a''\<rparr>,
      vscodeContext =
        [CurrentClusterGitOpsNotEnabled \<mapsto> False, ClusterUnreachable \<mapsto> False],
      trace = []\<rparr>"

definition rawOnlyB :: RawConfig where
  "rawOnlyB = \<lparr>rawContexts = [ValidEntry ctxB], rawCurrentContext = ''a''\<rparr>"

definition rawSwitchedToB :: RawConfig where
  "rawSwitchedToB =
     \<lparr>rawContexts = [ValidEntry ctxA, ValidEntry ctxB], rawCurrentContext = ''b''\<rparr>"

definition rawSameAB :: RawConfig where
  "rawSameAB =
     \<lparr>rawContexts = [ValidEntry ctxA, ValidEntry ctxB], rawCurrentContext = ''a''\<rparr>"

definition rawOneInvalid :: RawConfig where
  "rawOneInvalid =
     \<lparr>rawContexts = [ValidEntry ctxA, InvalidEntry, ValidEntry ctxB],
      rawCurrentContext = ''a''\<rparr>"

definition exampleNode :: "ChildNode list \<Rightarrow> NamespaceNode" where
  "exampleNode cs =
     \<lparr>resourceName = Some ''flux-system'', children = cs, collapsibleState = Collapsed,
      icon = None, label = []\<rparr>"

section \<open>The counts of updateLabel\<close>

text \<open>
  The loop only ever adds to its two counters, so its result from any start is the start
  plus its result from zero.
\<close>

lemma countChildren_acc:
  "countChildren cs (r, l) =
     (r + fst (countChildren cs (0, 0)), l + snd (countChildren cs (0, 0)))"
proof (induction cs arbitrary: r l)
  case Nil
  show ?case by simp
next
  case (Cons c cs)
  obtain a b where ab: "countChild c (0, 0) = (a, b)"
    by (cases "countChild c (0, 0)")
  have step: "countChild c (r, l) = (r + a, l + b)"
    using ab by (auto split: if_splits)
  have lhs: "countChildren (c # cs) (r, l) = countChildren cs (r + a, l + b)"
    by (simp only: countChildren.simps step)
  have rhs: "countChildren (c # cs) (0, 0) = countChildren cs (a, b)"
    by (simp only: countChildren.simps ab)
  show ?case
    unfolding lhs rhs
    by (simp add: Cons.IH[of "r + a" "l + b"] Cons.IH[of a b])
qed

lemma readyLength_Nil: "readyLength [] = 0"
  by (simp add: readyLength_def)

lemma loadingLength_Nil: "loadingLength [] = 0"
  by (simp add: loadingLength_def)

lemma readyLength_Cons:
  "readyLength (c # cs) =
     (if tracked c \<and> \<not> resourceIsReady c then 0 else 1) + readyLength cs"
  unfolding readyLength_def
  by (simp add: countChildren_acc[of cs "Suc 0" 0] countChildren_acc[of cs 0 "Suc 0"])

lemma loadingLength_Cons:
  "loadingLength (c # cs) =
     (if tracked c \<and> \<not> resourceIsReady c \<and> resourceIsProgressing c then 1 else 0)
       + loadingLength cs"
  unfolding loadingLength_def
  by (simp add: countChildren_acc[of cs "Suc 0" 0] countChildren_acc[of cs 0 "Suc 0"])

lemma readyLength_filter:
  "readyLength cs =
     length (filter (\<lambda>c. tracked c \<and> resourceIsReady c) cs) +
     length (filter (\<lambda>c. \<not> tracked c) cs)"
  by (induction cs) (auto simp: readyLength_Nil readyLength_Cons)

lemma loadingLength_filter:
  "loadingLength cs =
     length (filter (\<lambda>c. tracked c \<and> \<not> resourceIsReady c \<and> resourceIsProgressing c) cs)"
  by (induction cs) (auto simp: loadingLength_Nil loadingLength_Cons)

lemma validLength_le_total: "validLength cs \<le> totalLength cs"
  by (induction cs) (auto simp: validLength_def totalLength_def readyLength_Nil loadingLength_Nil
      readyLength_Cons loadingLength_Cons)

lemma children_updateLabel: "children (updateLabel withIcons node) = children node"
  by (simp add: updateLabel_def Let_def)

lemma icon_updateLabel:
  "icon (updateLabel withIcons node) =
     (if withIcons then Some (chooseIcon (children node)) else None)"
  by (simp add: updateLabel_def Let_def)

lemma readyLength_specReady: "readyLength cs = specReady cs"
  by (simp add: readyLength_filter specReady_def)

lemma loadingLength_specProgressing:
  "list_all exclusiveFlags cs \<Longrightarrow> loadingLength cs = specProgressing cs"
  by (induction cs)
    (auto simp: loadingLength_Nil loadingLength_Cons specProgressing_def exclusiveFlags_def)

lemma chooseIcon_specIcon:
  "list_all exclusiveFlags cs \<Longrightarrow> chooseIcon cs = specIcon cs"
  by (simp add: chooseIcon_def specIcon_def validLength_def totalLength_def
      readyLength_specReady loadingLength_specProgressing)

section \<open>Status aggregation\<close>

text \<open>
  What the loop counts, for any children: ready are the tracked children that are ready
  and all untracked children; loading are the tracked children that are not ready and are
  progressing (progress is asked for only after readiness failed).
\<close>

lemma updateLabel_counts:
  "readyLength cs =
     length (filter (\<lambda>c. tracked c \<and> resourceIsReady c) cs) +
     length (filter (\<lambda>c. \<not> tracked c) cs) \<and>
   loadingLength cs =
     length (filter (\<lambda>c. tracked c \<and> \<not> resourceIsReady c \<and> resourceIsProgressing c) cs)"
  using readyLength_filter[of cs] loadingLength_filter[of cs] by simp

lemma progressing_filter_exclusive:
  "list_all exclusiveFlags cs \<Longrightarrow>
     filter (\<lambda>c. tracked c \<and> \<not> resourceIsReady c \<and> resourceIsProgressing c) cs =
     filter (\<lambda>c. tracked c \<and> resourceIsProgressing c) cs"
  by (induction cs) (auto simp: exclusiveFlags_def)

text \<open>
  Claim C3: for every node whose children keep the readiness invariant of the data model
  (a Source/Workload child is never ready and progressing at once), \<open>updateLabel\<close> with
  icons enabled computes ready as the number of Source/Workload children that are ready
  plus the number of children of another kind, progressing as the number of
  Source/Workload children that are progressing, valid as ready plus progressing, and
  sets the icon to Success if ready equals the total, else to Progressing if valid equals
  the total, else to Warning; a child of an untracked kind adds one to ready and nothing
  to progressing. The counts and the icon are those of the specification's rule.
\<close>

theorem updateLabel_status_aggregate:
  assumes "list_all exclusiveFlags (children node)"
  shows "readyLength (children node) =
       length (filter (\<lambda>c. tracked c \<and> resourceIsReady c) (children node)) +
       length (filter (\<lambda>c. \<not> tracked c) (children node)) \<and>
     loadingLength (children node) =
       length (filter (\<lambda>c. tracked c \<and> resourceIsProgressing c) (children node)) \<and>
     validLength (children node) =
       readyLength (children node) + loadingLength (children node) \<and>
     icon (updateLabel True node) =
       Some (if readyLength (children node) = totalLength (children node) then Success
             else if validLength (children node) = totalLength (children node)
             then Progressing
             else Warning) \<and>
     icon (updateLabel True node) = Some (specIcon (children node)) \<and>
     countChild OtherNode (r, l) = (r + 1, l)"
proof -
  have ready: "readyLength (children node) =
       length (filter (\<lambda>c. tracked c \<and> resourceIsReady c) (children node)) +
       length (filter (\<lambda>c. \<not> tracked c) (children node))"
    by (rule readyLength_filter)
  have loading: "loadingLength (children node) =
       length (filter (\<lambda>c. tracked c \<and> resourceIsProgressing c) (children node))"
    using loadingLength_filter[of "children node"] progressing_filter_exclusive[OF assms]
    by simp
  have valid: "validLength (children node) =
       readyLength (children node) + loadingLength (children node)"
    by (simp add: validLength_def)
  have chosen: "icon (updateLabel True node) = Some (chooseIcon (children node))"
    by (simp add: icon_updateLabel)
  have spec: "chooseIcon (children node) = specIcon (children node)"
    using assms by (rule chooseIcon_specIcon)
  have rule: "chooseIcon (children node) =
       (if readyLength (children node) = totalLength (children node) then Success
        else if validLength (children node) = totalLength (children node) then Progressing
        else Warning)"
    by (simp add: chooseIcon_def)
  have other: "countChild OtherNode (r, l) = (r + 1, l)"
    by simp
  from ready loading valid chosen spec rule other show ?thesis
    by (simp only: simp_thms)
qed

theorem updateLabel_status_aggregate_witness:
  "list_all exclusiveFlags [SourceNode True False, WorkloadNode False True, OtherNode] \<and>
   readyLength [SourceNode True False, WorkloadNode False True, OtherNode] = 2 \<and>
   loadingLength [SourceNode True False, WorkloadNode False True, OtherNode] = 1 \<and>
   icon (updateLabel True
     (exampleNode [SourceNode True False, WorkloadNode False True, OtherNode])) =
     Some Progressing"
proof -
  have h: "list_all exclusiveFlags
      (children (exampleNode [SourceNode True False, WorkloadNode False True, OtherNode]))"
    by (simp add: exampleNode_def exclusiveFlags_def)
  show ?thesis
    using updateLabel_status_aggregate[OF h, of 0 0] h
    by (simp add: exampleNode_def totalLength_def)
qed

text \<open>
  Claim C4: for every namespace node, after \<open>updateLabel\<close> the counts over its children
  satisfy ready + progressing + (total - valid) = total with valid = ready + progressing.
  Over the integers the equation needs nothing; that valid never exceeds the total (each
  child is counted at most once) makes the error count total - valid non-negative, and
  the equation then holds over the natural numbers as well.
\<close>

theorem updateLabel_aggregate_invariant:
  "int (readyLength (children (updateLabel withIcons node))) +
   int (loadingLength (children (updateLabel withIcons node))) +
   (int (totalLength (children (updateLabel withIcons node))) -
    int (validLength (children (updateLabel withIcons node)))) =
   int (totalLength (children (updateLabel withIcons node))) \<and>
   validLength (children (updateLabel withIcons node)) =
     readyLength (children (updateLabel withIcons node)) +
     loadingLength (children (updateLabel withIcons node)) \<and>
   validLength (children (updateLabel withIcons node)) \<le>
     totalLength (children (updateLabel withIcons node)) \<and>
   readyLength (children (updateLabel withIcons node)) +
   loadingLength (children (updateLabel withIcons node)) +
   (totalLength (children (updateLabel withIcons node)) -
    validLength (children (updateLabel withIcons node))) =
   totalLength (children (updateLabel withIcons node))"
proof -
  have le: "validLength (children node) \<le> totalLength (children node)"
    by (rule validLength_le_total)
  have v: "validLength (children node) =
      readyLength (children node) + loadingLength (children node)"
    by (simp add: validLength_def)
  show ?thesis
    unfolding children_updateLabel using le v by simp
qed

section \<open>The label\<close>

text \<open>
  A collapsed node whose children are all ready is labelled with the name and the total in
  parentheses, not with the name alone; and the fraction shown for a collapsed node counts
  the valid children (ready plus progressing), not the ready ones: with one ready, one
  progressing and one failed child it reads 2/3 while one child is ready.
\<close>

theorem label_counterexample:
  "label (updateLabel True (exampleNode [SourceNode True False])) = ''flux-system (1)'' \<and>
   readyLength [SourceNode True False, WorkloadNode False True, SourceNode False False] = 1 \<and>
   label (updateLabel True
     (exampleNode [SourceNode True False, WorkloadNode False True, SourceNode False False])) =
     ''flux-system (2/3)''"
  by (simp add: updateLabel_def lengthLabel_def exampleNode_def totalLength_def
      validLength_def readyLength_def loadingLength_def showName_def showNat.simps Let_def)

text \<open>
  Claim C7, as amended: for every namespace node, \<open>updateLabel\<close> computes the counts and
  then sets the label: for a collapsed node the name followed by the total in parentheses
  when every child is ready or progressing (valid = total), and by valid/total in
  parentheses otherwise; for a node that is not collapsed the name alone.
\<close>

theorem updateLabel_label:
  "label (updateLabel withIcons node) =
     (if collapsibleState node = Collapsed then
        (if totalLength (children node) = validLength (children node)
         then showName (resourceName node) @ '' ('' @
              showNat (totalLength (children node)) @ '')''
         else showName (resourceName node) @ '' ('' @
              showNat (validLength (children node)) @ ''/'' @
              showNat (totalLength (children node)) @ '')'')
      else showName (resourceName node))"
  by (simp add: updateLabel_def lengthLabel_def Let_def)

theorem updateLabel_label_witness:
  "label (updateLabel True
     (exampleNode [SourceNode True False, WorkloadNode False True, OtherNode])) =
     ''flux-system (3)''"
  using updateLabel_label
    [of True "exampleNode [SourceNode True False, WorkloadNode False True, OtherNode]"]
  by (simp add: exampleNode_def totalLength_def validLength_def readyLength_def
      loadingLength_def showName_def showNat.simps)


section \<open>The registry\<close>

text \<open>
  A missing or empty kind, and a kind that is neither a key of the table nor a property
  name of \<open>Object.prototype\<close>, give \<open>undefined\<close>; a key of the table gives a node of
  its class.
\<close>

lemma makeTreeNode_no_kind:
  "kind object = None \<or> kind object = Some [] \<Longrightarrow> makeTreeNode object = Inr None"
  by (auto simp: makeTreeNode_def)

lemma makeTreeNode_unlisted:
  assumes "kind object = Some k"
    and "k \<notin> fst ` set nodeConstructors"
    and "k \<notin> fst ` set objectPrototype"
  shows "makeTreeNode object = Inr None"
proof -
  have "map_of nodeConstructors k = None"
    using assms(2) by (simp add: map_of_eq_None_iff)
  moreover have "map_of objectPrototype k = None"
    using assms(3) by (simp add: map_of_eq_None_iff)
  ultimately have "getProperty k = None"
    by (simp add: getProperty_def)
  then show ?thesis
    using assms(1) by (simp add: makeTreeNode_def)
qed

lemma makeTreeNode_listed:
  assumes "kind object = Some k"
    and "map_of nodeConstructors k = Some c"
  shows "makeTreeNode object = Inr (Some (TreeNode c object))"
proof -
  have "k \<noteq> []"
    using assms(2) by (auto simp: nodeConstructors_def split: if_splits)
  moreover have "getProperty k = Some (NodeConstructor c)"
    using assms(2) by (simp add: getProperty_def)
  ultimately show ?thesis
    using assms(1) by (simp add: makeTreeNode_def)
qed

lemma makeTreeNode_constructor_kind:
  "makeTreeNode \<lparr>kind = Some ''constructor'', metadataName = Some ''x''\<rparr> =
     Inr (Some (SameObject \<lparr>kind = Some ''constructor'', metadataName = Some ''x''\<rparr>))"
  by (simp add: makeTreeNode_def getProperty_def nodeConstructors_def objectPrototype_def)

text \<open>
  Claim C9: \<open>makeTreeNode\<close> returns \<open>undefined\<close> rather than raising for every kind
  that is not in the table. It does not for the kind \<open>toString\<close>: the lookup finds the
  method every object inherits, the value is truthy, and \<open>new\<close> raises a \<open>TypeError\<close>
  on it.
\<close>

theorem makeTreeNode_raises_on_inherited_method:
  "makeTreeNode \<lparr>kind = Some ''toString'', metadataName = Some ''x''\<rparr> = Inl TypeError"
  by (simp add: makeTreeNode_def getProperty_def nodeConstructors_def objectPrototype_def)

section \<open>One synchronisation cycle\<close>

lemmas effect_defs =
  emit_def setState_def setVSCodeContext_def reloadClustersTreeView_def loadApiResources_def

lemma eventsSince_append: "trace w' = trace w @ es \<Longrightarrow> eventsSince w w' = es"
  by (simp add: eventsSince_def)

lemma syncKubeConfig_failure_world:
  assumes "\<not> succeeded (invokeKubectlCommand env ''config view'')"
  shows "syncKubeConfig env force w =
     (Returned (),
      w\<lparr>kubeConfigState := Failed,
        trace := trace w @
          [SetState Loading, InvokeKubectl ''config view'',
           SendError FAILED_TO_GET_KUBECTL_CONFIG,
           ShowErrorMessage
             (failedToLoadMessage env (invokeKubectlCommand env ''config view'')),
           SetState Failed]\<rparr>)"
  using assms
  by (cases "invokeKubectlCommand env ''config view''")
    (simp_all add: syncKubeConfig_def syncFailed_def succeeded_def Let_def effect_defs)

text \<open>
  Claim C1: in every cycle in which the kubectl call gives no result or a non-zero exit
  code, \<open>syncKubeConfig\<close> returns with the state Failed, shows an error message to the
  user, and leaves the committed kubeconfig (and the editor's context keys) as they were;
  the only events of the cycle are the two state changes, the call, the telemetry error
  and the message.
\<close>

theorem syncKubeConfig_cli_failure:
  assumes "\<not> succeeded (invokeKubectlCommand env ''config view'')"
  shows "fst (syncKubeConfig env force w) = Returned () \<and>
     kubeConfigState (snd (syncKubeConfig env force w)) = Failed \<and>
     kubeConfig (snd (syncKubeConfig env force w)) = kubeConfig w \<and>
     vscodeContext (snd (syncKubeConfig env force w)) = vscodeContext w \<and>
     eventsSince w (snd (syncKubeConfig env force w)) =
       [SetState Loading, InvokeKubectl ''config view'',
        SendError FAILED_TO_GET_KUBECTL_CONFIG,
        ShowErrorMessage (failedToLoadMessage env (invokeKubectlCommand env ''config view'')),
        SetState Failed]"
  by (simp add: syncKubeConfig_failure_world[OF assms] eventsSince_def)

lemma kubectlFails_not_succeeded:
  "\<not> succeeded (invokeKubectlCommand (specEnv kubectlFails) ''config view'')"
  by (simp add: specEnv_def kubectlFails_def succeeded_def)

theorem syncKubeConfig_cli_failure_witness:
  "\<not> succeeded (invokeKubectlCommand (specEnv kubectlFails) ''config view'') \<and>
   kubeConfigState (snd (syncKubeConfig (specEnv kubectlFails) False worldAB)) = Failed \<and>
   kubeConfig (snd (syncKubeConfig (specEnv kubectlFails) False worldAB)) =
     \<lparr>contexts = [ctxA, ctxB], currentContext = ''a''\<rparr> \<and>
   eventsSince worldAB (snd (syncKubeConfig (specEnv kubectlFails) False worldAB)) =
     [SetState Loading, InvokeKubectl ''config view'',
      SendError FAILED_TO_GET_KUBECTL_CONFIG,
      ShowErrorMessage ''Failed to load kubeconfig: ~/.kube/config connection refused'',
      SetState Failed]"
  using syncKubeConfig_cli_failure[OF kubectlFails_not_succeeded, of False worldAB]
    kubectlFails_not_succeeded
  by (simp add: worldAB_def failedToLoadMessage_def specEnv_def kubectlFails_def)

lemma syncKubeConfig_success_step:
  assumes "invokeKubectlCommand env ''config view'' = Some r"
    and "code r = 0"
    and "loadFromString env (stdout r) FILTER = Some new"
  shows "syncKubeConfig env force w =
     (let w3 = w\<lparr>kubeConfigState := Loaded,
                 trace := trace w @
                   [SetState Loading, InvokeKubectl ''config view'', SetState Loaded]\<rparr>
      in if kcTextChanged env (kubeConfig w) new
         then kubeconfigChanged env new force w3
         else if force then (Returned (), loadApiResources w3)
         else (Returned (), w3))"
  using assms by (simp add: syncKubeConfig_def Let_def effect_defs)

text \<open>
  Claim C8: in every cycle in which the kubectl call succeeds and the text is unchanged,
  nothing is committed and no tree view is reloaded: the kubeconfig and the context keys
  stay as they were, and the cycle's events are the state changes and the call, followed
  by the resource-kind reload exactly when \<open>forceReloadResourceKinds\<close> is set.
\<close>

theorem syncKubeConfig_text_unchanged:
  assumes "invokeKubectlCommand env ''config view'' = Some r"
    and "code r = 0"
    and "loadFromString env (stdout r) FILTER = Some new"
    and "\<not> kcTextChanged env (kubeConfig w) new"
  shows "fst (syncKubeConfig env force w) = Returned () \<and>
     kubeConfig (snd (syncKubeConfig env force w)) = kubeConfig w \<and>
     vscodeContext (snd (syncKubeConfig env force w)) = vscodeContext w \<and>
     kubeConfigState (snd (syncKubeConfig env force w)) = Loaded \<and>
     eventsSince w (snd (syncKubeConfig env force w)) =
       [SetState Loading, InvokeKubectl ''config view'', SetState Loaded] @
       (if force then [LoadApiResources] else [])"
  using assms(4)
  by (simp add: syncKubeConfig_success_step[OF assms(1-3)] Let_def effect_defs eventsSince_def)

lemma kubeconfigChanged_world:
  assumes "loadFromString env (exportConfig env new) FILTER = Some committed"
  shows "kubeconfigChanged env new force w =
     (Returned (),
      w\<lparr>kubeConfig := committed,
        kubeConfigState :=
          (if currentContextExists committed then kubeConfigState w else NoContextSelected),
        vscodeContext :=
          (if kcCurrentContextChanged env (kubeConfig w) new
           then (vscodeContext w)
                  (CurrentClusterGitOpsNotEnabled \<mapsto> False, ClusterUnreachable \<mapsto> False)
           else vscodeContext w),
        trace := trace w @
          (if currentContextExists committed then [] else [SetState NoContextSelected]) @
          (if kcCurrentContextChanged env (kubeConfig w) new
           then [SetVSCodeContext CurrentClusterGitOpsNotEnabled False,
                 SetVSCodeContext ClusterUnreachable False]
           else []) @
          (if kcCurrentContextChanged env (kubeConfig w) new \<or> force
           then [ReloadClustersTreeView, LoadApiResources]
           else if kcContextsListChanged env (kubeConfig w) new
           then [ReloadClustersTreeView] else [])\<rparr>)"
  using assms by (simp add: kubeconfigChanged_def Let_def effect_defs)

lemma syncKubeConfig_changed_world:
  assumes "invokeKubectlCommand env ''config view'' = Some r"
    and "code r = 0"
    and "loadFromString env (stdout r) FILTER = Some new"
    and "kcTextChanged env (kubeConfig w) new"
    and "loadFromString env (exportConfig env new) FILTER = Some committed"
  shows "syncKubeConfig env force w =
     (Returned (),
      w\<lparr>kubeConfig := committed,
        kubeConfigState :=
          (if currentContextExists committed then Loaded else NoContextSelected),
        vscodeContext :=
          (if kcCurrentContextChanged env (kubeConfig w) new
           then (vscodeContext w)
                  (CurrentClusterGitOpsNotEnabled \<mapsto> False, ClusterUnreachable \<mapsto> False)
           else vscodeContext w),
        trace := trace w @
          [SetState Loading, InvokeKubectl ''config view'', SetState Loaded] @
          (if currentContextExists committed then [] else [SetState NoContextSelected]) @
          (if kcCurrentContextChanged env (kubeConfig w) new
           then [SetVSCodeContext CurrentClusterGitOpsNotEnabled False,
                 SetVSCodeContext ClusterUnreachable False]
           else []) @
          (if kcCurrentContextChanged env (kubeConfig w) new \<or> force
           then [ReloadClustersTreeView, LoadApiResources]
           else if kcContextsListChanged env (kubeConfig w) new
           then [ReloadClustersTreeView] else [])\<rparr>)"
  using assms(4)
  by (simp add: syncKubeConfig_success_step[OF assms(1-3)] kubeconfigChanged_world[OF assms(5)]
      Let_def)

text \<open>
  Claim C5: in every cycle in which the text changed, the reloads issued are the cluster
  tree view and then the resource kinds when the current context changed or
  \<open>forceReloadResourceKinds\<close> is set; otherwise the cluster tree view alone when the
  contexts list changed; otherwise none.
\<close>

theorem syncKubeConfig_dispatch:
  assumes "invokeKubectlCommand env ''config view'' = Some r"
    and "code r = 0"
    and "loadFromString env (stdout r) FILTER = Some new"
    and "kcTextChanged env (kubeConfig w) new"
    and "loadFromString env (exportConfig env new) FILTER = Some committed"
  shows "fst (syncKubeConfig env force w) = Returned () \<and>
     reloads (eventsSince w (snd (syncKubeConfig env force w))) =
       (if kcCurrentContextChanged env (kubeConfig w) new \<or> force
        then [ReloadClustersTreeView, LoadApiResources]
        else if kcContextsListChanged env (kubeConfig w) new
        then [ReloadClustersTreeView]
        else [])"
  by (simp add: syncKubeConfig_changed_world[OF assms] eventsSince_def reloads_def isReload_def)

text \<open>
  The path of a changed text: the new snapshot is committed, \<open>currentContextExists\<close> is
  asked of it and decides between Loaded and NoContextSelected, and both flags are set to
  false when the comparison reports that the current context changed.
\<close>

lemma syncKubeConfig_changed_state_and_flags:
  assumes "invokeKubectlCommand env ''config view'' = Some r"
    and "code r = 0"
    and "loadFromString env (stdout r) FILTER = Some new"
    and "kcTextChanged env (kubeConfig w) new"
    and "loadFromString env (exportConfig env new) FILTER = Some committed"
  shows "kubeConfig (snd (syncKubeConfig env force w)) = committed \<and>
     kubeConfigState (snd (syncKubeConfig env force w)) =
       (if currentContextExists committed then Loaded else NoContextSelected) \<and>
     vscodeContext (snd (syncKubeConfig env force w)) =
       (if kcCurrentContextChanged env (kubeConfig w) new
        then (vscodeContext w)
               (CurrentClusterGitOpsNotEnabled \<mapsto> False, ClusterUnreachable \<mapsto> False)
        else vscodeContext w)"
  by (simp add: syncKubeConfig_changed_world[OF assms])

text \<open>
  Claim C6: after every cycle that leaves a current context that is not in the context
  list, the state is NoContextSelected and both flags are cleared. The code does not keep
  to it in a cycle whose text is unchanged: line 47 has set the state to Loaded,
  \<open>kubeconfigChanged\<close> (the only place that asks \<open>currentContextExists\<close>) is not called,
  and the cycle ends with the state Loaded, the missing current context still committed,
  and no flag written. This holds whatever the comparisons are, as long as they report
  the text as unchanged.
\<close>

theorem syncKubeConfig_unchanged_text_resets_state:
  assumes "invokeKubectlCommand env ''config view'' = Some r"
    and "code r = 0"
    and "loadFromString env (stdout r) FILTER = Some new"
    and "\<not> kcTextChanged env (kubeConfig w) new"
    and "\<not> currentContextExists (kubeConfig w)"
  shows "fst (syncKubeConfig env False w) = Returned () \<and>
     \<not> currentContextExists (kubeConfig (snd (syncKubeConfig env False w))) \<and>
     kubeConfigState (snd (syncKubeConfig env False w)) = Loaded \<and>
     vscodeContext (snd (syncKubeConfig env False w)) = vscodeContext w \<and>
     eventsSince w (snd (syncKubeConfig env False w)) =
       [SetState Loading, InvokeKubectl ''config view'', SetState Loaded]"
  using assms(4,5)
  by (simp add: syncKubeConfig_success_step[OF assms(1-3)] Let_def eventsSince_def)

section \<open>Switching the context\<close>

text \<open>
  Claim C10: for a context name equal to the current context, \<open>setCurrentContext\<close>
  returns \<open>{isChanged: false}\<close> at once: the module state, the kubeconfig and current
  context in it, is unchanged and no event, so no kubectl call, is added to the trace.
\<close>

theorem setCurrentContext_already_current:
  assumes "currentContext (kubeConfig w) = contextName"
  shows "setCurrentContext env contextName w = (Some \<lparr>isChanged = False\<rparr>, w) \<and>
     eventsSince w (snd (setCurrentContext env contextName w)) = []"
  using assms by (simp add: setCurrentContext_def eventsSince_def)

theorem setCurrentContext_already_current_witness:
  "currentContext (kubeConfig worldAB) = ''a'' \<and>
   setCurrentContext (specEnv kubectlFails) ''a'' worldAB = (Some \<lparr>isChanged = False\<rparr>, worldAB)"
proof -
  have h: "currentContext (kubeConfig worldAB) = ''a''"
    by (simp add: worldAB_def)
  show ?thesis
    using h setCurrentContext_already_current[OF h, of "specEnv kubectlFails"] by simp
qed

section \<open>Partial parse tolerance\<close>

text \<open>
  Facts about the modelled loader: it keeps the valid entries in order and drops nothing
  else, and loading an exported snapshot gives the snapshot back.
\<close>

lemma keepValid_map_ValidEntry: "keepValid (map ValidEntry cs) = cs"
  by (induction cs) simp_all

lemma keepValid_filter:
  "map ValidEntry (keepValid es) = filter (\<lambda>e. e \<noteq> InvalidEntry) es"
  by (induction es rule: keepValid.induct) simp_all

lemma length_keepValid:
  "length (keepValid es) + count_list es InvalidEntry = length es"
  by (induction es rule: keepValid.induct) simp_all

lemma specLoadFromString_FILTER:
  "specLoadFromString raw FILTER =
     Some \<lparr>contexts = keepValid (rawContexts raw), currentContext = rawCurrentContext raw\<rparr>"
  by (simp add: specLoadFromString_def)

lemma specLoad_specExport: "specLoadFromString (specExportConfig kc) FILTER = Some kc"
  by (simp add: specLoadFromString_def specExportConfig_def keepValid_map_ValidEntry)

lemma specExportConfig_inject: "specExportConfig a = specExportConfig b \<Longrightarrow> a = b"
proof -
  assume "specExportConfig a = specExportConfig b"
  then have "Some a = Some b"
    by (simp only: specLoad_specExport[symmetric])
  then show "a = b" by simp
qed

lemma kubectlViews_config_view:
  "invokeKubectlCommand (specEnv (kubectlViews raw)) ''config view'' =
     Some \<lparr>code = 0, stdout = raw, stderr = []\<rparr>"
  by (simp add: specEnv_def kubectlViews_def)

lemma specEnv_load:
  "loadFromString (specEnv kubectl) (stdout \<lparr>code = 0, stdout = raw, stderr = []\<rparr>) FILTER =
     Some \<lparr>contexts = keepValid (rawContexts raw), currentContext = rawCurrentContext raw\<rparr>"
  by (simp add: specEnv_def specLoadFromString_FILTER)

lemma specEnv_commit:
  "loadFromString (specEnv kubectl) (exportConfig (specEnv kubectl) kc) FILTER = Some kc"
  by (simp add: specEnv_def specLoad_specExport)

lemma code_zero: "code \<lparr>code = 0, stdout = raw, stderr = []\<rparr> = 0"
  by simp

lemma specLoadFromString_THROW_fails:
  "specLoadFromString rawOneInvalid THROW = None"
  by (simp add: specLoadFromString_def rawOneInvalid_def)

text \<open>
  Claim C2: when kubectl succeeds with a raw configuration that holds one structurally
  invalid context entry among N valid ones, the loader (called with \<open>FILTER\<close>) drops
  only the invalid entry and does not raise, the new snapshot has exactly N contexts, the
  cycle returns having set the state to Loaded and never to Failed, and the kubeconfig
  committed at the end of the cycle has exactly N contexts. The state at the end is
  Loaded, unless the snapshot differs from the one committed before and its current
  context is not in its list: then the state has moved on to NoContextSelected.
\<close>

theorem syncKubeConfig_partial_parse:
  assumes "invokeKubectlCommand env ''config view'' = Some r"
    and "code r = 0"
    and "loadFromString env = specLoadFromString"
    and "exportConfig env = specExportConfig"
    and "kcTextChanged env = specTextChanged"
    and "length (rawContexts (stdout r)) = Suc N"
    and "count_list (rawContexts (stdout r)) InvalidEntry = 1"
  shows "map ValidEntry (keepValid (rawContexts (stdout r))) =
       filter (\<lambda>e. e \<noteq> InvalidEntry) (rawContexts (stdout r)) \<and>
     loadFromString env (stdout r) FILTER =
       Some \<lparr>contexts = keepValid (rawContexts (stdout r)),
             currentContext = rawCurrentContext (stdout r)\<rparr> \<and>
     length (keepValid (rawContexts (stdout r))) = N \<and>
     fst (syncKubeConfig env force w) = Returned () \<and>
     SetState Loaded \<in> set (eventsSince w (snd (syncKubeConfig env force w))) \<and>
     SetState Failed \<notin> set (eventsSince w (snd (syncKubeConfig env force w))) \<and>
     kubeConfigState (snd (syncKubeConfig env force w)) \<noteq> Failed \<and>
     kubeConfigState (snd (syncKubeConfig env force w)) =
       (if currentContextExists (kubeConfig (snd (syncKubeConfig env force w))) \<or>
           kubeConfig w = kubeConfig (snd (syncKubeConfig env force w))
        then Loaded else NoContextSelected) \<and>
     length (contexts (kubeConfig (snd (syncKubeConfig env force w)))) = N"
proof -
  define new where
    "new = \<lparr>contexts = keepValid (rawContexts (stdout r)),
            currentContext = rawCurrentContext (stdout r)\<rparr>"
  have load: "loadFromString env (stdout r) FILTER = Some new"
    by (simp add: assms(3) specLoadFromString_FILTER new_def)
  have len: "length (keepValid (rawContexts (stdout r))) = N"
    using length_keepValid[of "rawContexts (stdout r)"] assms(6,7) by simp
  have commit: "loadFromString env (exportConfig env new) FILTER = Some new"
    by (simp add: assms(3,4) specLoad_specExport)
  have run: "fst (syncKubeConfig env force w) = Returned () \<and>
     SetState Loaded \<in> set (eventsSince w (snd (syncKubeConfig env force w))) \<and>
     SetState Failed \<notin> set (eventsSince w (snd (syncKubeConfig env force w))) \<and>
     kubeConfigState (snd (syncKubeConfig env force w)) \<noteq> Failed \<and>
     kubeConfigState (snd (syncKubeConfig env force w)) =
       (if currentContextExists new \<or> kubeConfig w = new then Loaded
        else NoContextSelected) \<and>
     kubeConfig (snd (syncKubeConfig env force w)) = new"
  proof (cases "kcTextChanged env (kubeConfig w) new")
    case True
    then have "kubeConfig w \<noteq> new"
      by (auto simp: assms(5) specTextChanged_def)
    then show ?thesis
      by (simp add: syncKubeConfig_changed_world[OF assms(1,2) load True commit]
          eventsSince_def)
  next
    case False
    then have "specExportConfig (kubeConfig w) = specExportConfig new"
      by (simp add: assms(5) specTextChanged_def)
    then have same: "kubeConfig w = new"
      by (rule specExportConfig_inject)
    show ?thesis
      using False same
      by (simp add: syncKubeConfig_success_step[OF assms(1,2) load] Let_def effect_defs
          eventsSince_def)
  qed
  from run have final:
    "kubeConfigState (snd (syncKubeConfig env force w)) =
       (if currentContextExists (kubeConfig (snd (syncKubeConfig env force w))) \<or>
           kubeConfig w = kubeConfig (snd (syncKubeConfig env force w))
        then Loaded else NoContextSelected)"
    by simp
  show ?thesis
    using run len load final by (simp add: keepValid_filter new_def)
qed

lemma rawOneInvalid_view:
  "invokeKubectlCommand (specEnv (kubectlViews rawOneInvalid)) ''config view'' =
     Some \<lparr>code = 0, stdout = rawOneInvalid, stderr = []\<rparr>"
  by (rule kubectlViews_config_view)

lemma rawOneInvalid_run:
  "syncKubeConfig (specEnv (kubectlViews rawOneInvalid)) False worldInitial =
    (Returned (),
     \<lparr>kubeConfigState = Loaded,
      kubeConfig = \<lparr>contexts = [ctxA, ctxB], currentContext = ''a''\<rparr>,
      vscodeContext =
        [CurrentClusterGitOpsNotEnabled \<mapsto> False, ClusterUnreachable \<mapsto> False],
      trace = [SetState Loading, InvokeKubectl ''config view'', SetState Loaded,
         SetVSCodeContext CurrentClusterGitOpsNotEnabled False,
         SetVSCodeContext ClusterUnreachable False, ReloadClustersTreeView,
         LoadApiResources]\<rparr>)"
  by (simp add: syncKubeConfig_def kubeconfigChanged_def Let_def effect_defs specEnv_def
      kubectlViews_def specLoadFromString_def specExportConfig_def specTextChanged_def
      specCurrentContextChanged_def specContextsListChanged_def currentContextExists_def
      rawOneInvalid_def worldInitial_def ctxA_def ctxB_def)

theorem syncKubeConfig_partial_parse_witness:
  "length (rawContexts rawOneInvalid) = Suc 2 \<and>
   count_list (rawContexts rawOneInvalid) InvalidEntry = 1 \<and>
   contexts (kubeConfig (snd (syncKubeConfig (specEnv (kubectlViews rawOneInvalid)) False
     worldInitial))) = [ctxA, ctxB] \<and>
   kubeConfigState (snd (syncKubeConfig (specEnv (kubectlViews rawOneInvalid)) False
     worldInitial)) = Loaded"
proof -
  have h6: "length (rawContexts (stdout \<lparr>code = 0, stdout = rawOneInvalid, stderr = []\<rparr>)) = Suc 2"
    by (simp add: rawOneInvalid_def)
  have h7: "count_list (rawContexts (stdout \<lparr>code = 0, stdout = rawOneInvalid, stderr = []\<rparr>))
      InvalidEntry = 1"
    by (simp add: rawOneInvalid_def)
  have h3: "loadFromString (specEnv (kubectlViews rawOneInvalid)) = specLoadFromString"
    by (simp add: specEnv_def)
  have h4: "exportConfig (specEnv (kubectlViews rawOneInvalid)) = specExportConfig"
    by (simp add: specEnv_def)
  have h5: "kcTextChanged (specEnv (kubectlViews rawOneInvalid)) = specTextChanged"
    by (simp add: specEnv_def)
  note inst = syncKubeConfig_partial_parse[OF rawOneInvalid_view code_zero h3 h4 h5 h6 h7,
      of False worldInitial]
  show ?thesis
    using inst h6 h7 by (simp add: rawOneInvalid_run)
qed

section \<open>Example cycles\<close>

lemmas example_defs =
  specEnv_def kubectlViews_def specLoadFromString_def specExportConfig_def
  specTextChanged_def specCurrentContextChanged_def specContextsListChanged_def
  currentContextExists_def ctxA_def ctxB_def

lemmas run_defs = syncKubeConfig_def syncFailed_def kubeconfigChanged_def Let_def effect_defs

lemma rawSwitchedToB_run:
  "syncKubeConfig (specEnv (kubectlViews rawSwitchedToB)) False worldAB =
    (Returned (),
     \<lparr>kubeConfigState = Loaded,
      kubeConfig = \<lparr>contexts = [ctxA, ctxB], currentContext = ''b''\<rparr>,
      vscodeContext =
        [CurrentClusterGitOpsNotEnabled \<mapsto> False, ClusterUnreachable \<mapsto> False],
      trace = [SetState Loading, InvokeKubectl ''config view'', SetState Loaded,
         SetVSCodeContext CurrentClusterGitOpsNotEnabled False,
         SetVSCodeContext ClusterUnreachable False, ReloadClustersTreeView,
         LoadApiResources]\<rparr>)"
  by (simp add: run_defs example_defs rawSwitchedToB_def worldAB_def)

lemma rawSameAB_run:
  "syncKubeConfig (specEnv (kubectlViews rawSameAB)) force worldAB =
    (Returned (),
     \<lparr>kubeConfigState = Loaded,
      kubeConfig = \<lparr>contexts = [ctxA, ctxB], currentContext = ''a''\<rparr>,
      vscodeContext =
        [CurrentClusterGitOpsNotEnabled \<mapsto> True, ClusterUnreachable \<mapsto> True],
      trace = [SetState Loading, InvokeKubectl ''config view'', SetState Loaded] @
         (if force then [LoadApiResources] else [])\<rparr>)"
  by (simp add: run_defs example_defs rawSameAB_def worldAB_def)

lemma worldAB_fields:
  "kubeConfig worldAB = \<lparr>contexts = [ctxA, ctxB], currentContext = ''a''\<rparr>"
  "trace worldAB = []"
  "vscodeContext worldAB =
     [CurrentClusterGitOpsNotEnabled \<mapsto> True, ClusterUnreachable \<mapsto> True]"
  by (simp_all add: worldAB_def)

lemma text_changed_onlyB:
  "kcTextChanged (specEnv (kubectlViews rawOnlyB)) (kubeConfig worldAB)
     \<lparr>contexts = keepValid (rawContexts rawOnlyB), currentContext = rawCurrentContext rawOnlyB\<rparr>"
  by (simp add: example_defs rawOnlyB_def worldAB_def)

lemma text_changed_switchedToB:
  "kcTextChanged (specEnv (kubectlViews rawSwitchedToB)) (kubeConfig worldAB)
     \<lparr>contexts = keepValid (rawContexts rawSwitchedToB),
      currentContext = rawCurrentContext rawSwitchedToB\<rparr>"
  by (simp add: example_defs rawSwitchedToB_def worldAB_def)

lemma text_unchanged_sameAB:
  "\<not> kcTextChanged (specEnv (kubectlViews rawSameAB)) (kubeConfig worldAB)
     \<lparr>contexts = keepValid (rawContexts rawSameAB), currentContext = rawCurrentContext rawSameAB\<rparr>"
  by (simp add: example_defs rawSameAB_def worldAB_def)

theorem syncKubeConfig_text_unchanged_witness:
  "\<not> kcTextChanged (specEnv (kubectlViews rawSameAB)) (kubeConfig worldAB)
     \<lparr>contexts = keepValid (rawContexts rawSameAB),
      currentContext = rawCurrentContext rawSameAB\<rparr> \<and>
   eventsSince worldAB (snd (syncKubeConfig (specEnv (kubectlViews rawSameAB)) False worldAB)) =
     [SetState Loading, InvokeKubectl ''config view'', SetState Loaded] \<and>
   eventsSince worldAB (snd (syncKubeConfig (specEnv (kubectlViews rawSameAB)) True worldAB)) =
     [SetState Loading, InvokeKubectl ''config view'', SetState Loaded, LoadApiResources] \<and>
   kubeConfig (snd (syncKubeConfig (specEnv (kubectlViews rawSameAB)) True worldAB)) =
     kubeConfig worldAB"
  using syncKubeConfig_text_unchanged
      [OF kubectlViews_config_view code_zero specEnv_load text_unchanged_sameAB, of False]
    syncKubeConfig_text_unchanged
      [OF kubectlViews_config_view code_zero specEnv_load text_unchanged_sameAB, of True]
    text_unchanged_sameAB
  by simp

theorem syncKubeConfig_dispatch_witness:
  "kcTextChanged (specEnv (kubectlViews rawSwitchedToB)) (kubeConfig worldAB)
     \<lparr>contexts = keepValid (rawContexts rawSwitchedToB),
      currentContext = rawCurrentContext rawSwitchedToB\<rparr> \<and>
   reloads (eventsSince worldAB
     (snd (syncKubeConfig (specEnv (kubectlViews rawSwitchedToB)) False worldAB))) =
     [ReloadClustersTreeView, LoadApiResources] \<and>
   kcTextChanged (specEnv (kubectlViews rawOnlyB)) (kubeConfig worldAB)
     \<lparr>contexts = keepValid (rawContexts rawOnlyB),
      currentContext = rawCurrentContext rawOnlyB\<rparr> \<and>
   reloads (eventsSince worldAB
     (snd (syncKubeConfig (specEnv (kubectlViews rawOnlyB)) False worldAB))) =
     [ReloadClustersTreeView]"
  using syncKubeConfig_dispatch
      [OF kubectlViews_config_view code_zero specEnv_load text_changed_switchedToB
        specEnv_commit, of False]
    syncKubeConfig_dispatch
      [OF kubectlViews_config_view code_zero specEnv_load text_changed_onlyB
        specEnv_commit, of False]
    text_changed_switchedToB text_changed_onlyB
  by (simp add: example_defs rawSwitchedToB_def rawOnlyB_def worldAB_fields)

text \<open>
  Deleting the selected context \<open>a\<close> changes the text: the cycle commits the list
  without \<open>a\<close> and ends in NoContextSelected, the committed state of \<open>worldDangling\<close>.
\<close>

lemma deleting_current_context_cycle:
  "kubeConfig (snd (syncKubeConfig (specEnv (kubectlViews rawOnlyB)) False worldAB)) =
     kubeConfig worldDangling \<and>
   kubeConfigState (snd (syncKubeConfig (specEnv (kubectlViews rawOnlyB)) False worldAB)) =
     kubeConfigState worldDangling"
  using syncKubeConfig_changed_state_and_flags
      [OF kubectlViews_config_view code_zero specEnv_load text_changed_onlyB
        specEnv_commit, of False]
  by (simp add: rawOnlyB_def worldDangling_def currentContextExists_def ctxB_def)

lemma text_unchanged_dangling:
  "\<not> kcTextChanged (specEnv (kubectlViews rawOnlyB)) (kubeConfig worldDangling)
     \<lparr>contexts = keepValid (rawContexts rawOnlyB), currentContext = rawCurrentContext rawOnlyB\<rparr>"
  by (simp add: example_defs rawOnlyB_def worldDangling_def)

lemma dangling_context_missing: "\<not> currentContextExists (kubeConfig worldDangling)"
  by (simp add: worldDangling_def currentContextExists_def ctxB_def)

theorem syncKubeConfig_unchanged_text_resets_state_witness:
  "\<not> currentContextExists (kubeConfig worldDangling) \<and>
   kubeConfigState worldDangling = NoContextSelected \<and>
   \<not> currentContextExists
      (kubeConfig (snd (syncKubeConfig (specEnv (kubectlViews rawOnlyB)) False worldDangling))) \<and>
   kubeConfigState (snd (syncKubeConfig (specEnv (kubectlViews rawOnlyB)) False worldDangling)) =
     Loaded \<and>
   eventsSince worldDangling
     (snd (syncKubeConfig (specEnv (kubectlViews rawOnlyB)) False worldDangling)) =
     [SetState Loading, InvokeKubectl ''config view'', SetState Loaded]"
  using syncKubeConfig_unchanged_text_resets_state
      [OF kubectlViews_config_view code_zero specEnv_load text_unchanged_dangling
        dangling_context_missing]
    dangling_context_missing
  by (simp add: worldDangling_def)

end
